theory Spec2Isabelle
  imports Main
begin

section \<open>JavaScript values\<close>

text \<open>
  The plugin is written against \<open>any\<close>: request bodies, payloads and decoded event frames
  are whatever the body parser and \<open>JSON.parse\<close> deliver. They are modelled as one type
  of JSON values. \<open>JUndef\<close> is JavaScript's \<open>undefined\<close> (a missing property reads as
  \<open>undefined\<close>, and \<open>JSON.stringify\<close> drops a property whose value is \<open>undefined\<close>, so an
  unset field and a field set to \<open>undefined\<close> are the same in the written record).
  Numbers are taken as integers (token counters, limits); a string is a list of characters,
  one \<open>char\<close> standing for one code unit of the JavaScript string. An object is an association
  list, read with the first binding of a key.
\<close>

datatype json =
    JUndef
  | JNull
  | JBool bool
  | JNum int
  | JStr string
  | JArr "json list"
  | JObj "(string \<times> json) list"

text \<open>
  What a hook or a task can throw: a TypeError, the rejection of \<open>appendFile\<close>, and the
  rejection of a \<open>read()\<close> with the reason the stream was errored with.
\<close>

datatype error = TypeError | IOError | StreamError json

text \<open>\<open>v == null\<close>: reading a property of such a value throws a TypeError.\<close>

fun nullish :: "json \<Rightarrow> bool" where
  "nullish JUndef = True"
| "nullish JNull = True"
| "nullish _ = False"

text \<open>
  \<open>v?.k\<close>. On a value that is not nullish this is also \<open>v.k\<close>: none of the property names the
  plugin reads is a built-in property of strings, numbers, booleans or arrays, so only an
  object can answer with something other than \<open>undefined\<close>.
\<close>

fun field :: "json \<Rightarrow> string \<Rightarrow> json" where
  "field (JObj kvs) k = (case map_of kvs k of None \<Rightarrow> JUndef | Some v \<Rightarrow> v)"
| "field _ k = JUndef"

text \<open>The truthiness test of \<open>if (v)\<close>, \<open>v && _\<close> and \<open>v || _\<close>.\<close>

fun truthy :: "json \<Rightarrow> bool" where
  "truthy JUndef = False"
| "truthy JNull = False"
| "truthy (JBool b) = b"
| "truthy (JNum n) = (n \<noteq> 0)"
| "truthy (JStr s) = (s \<noteq> [])"
| "truthy (JArr _) = True"
| "truthy (JObj _) = True"

text \<open>\<open>typeof v === 'object'\<close>: true of objects, of arrays and of \<open>null\<close>.\<close>

fun typeof_object :: "json \<Rightarrow> bool" where
  "typeof_object JNull = True"
| "typeof_object (JArr _) = True"
| "typeof_object (JObj _) = True"
| "typeof_object _ = False"

definition startsWith :: "string \<Rightarrow> string \<Rightarrow> bool" where
  "startsWith s p = (take (length p) s = p)"

definition endsWith :: "string \<Rightarrow> string \<Rightarrow> bool" where
  "endsWith s p = (length p \<le> length s \<and> drop (length s - length p) s = p)"

text \<open>\<open>s.split('\n')\<close>: the pieces between line feeds; never empty, \<open>''.split('\n')\<close> is \<open>['']\<close>.\<close>

fun split_nl :: "string \<Rightarrow> string list" where
  "split_nl [] = [[]]"
| "split_nl (c # cs) =
     (if c = CHR 0x0A then [] # split_nl cs
      else (case split_nl cs of [] \<Rightarrow> [[c]] | l # ls \<Rightarrow> (c # l) # ls))"

text \<open>\<open>xs.join('\n')\<close> on strings.\<close>

fun join_nl :: "string list \<Rightarrow> string" where
  "join_nl [] = []"
| "join_nl [s] = s"
| "join_nl (s # t # ss) = s @ [CHR 0x0A] @ join_nl (t # ss)"

text \<open>The decimal numeral that a template literal prints for an integer.\<close>

fun show_nat :: "nat \<Rightarrow> string" where
  "show_nat n =
     (if n < 10 then [''0123456789'' ! n]
      else show_nat (n div 10) @ [''0123456789'' ! (n mod 10)])"

definition show_int :: "int \<Rightarrow> string" where
  "show_int i = (if i < 0 then CHR ''-'' # show_nat (nat (- i)) else show_nat (nat i))"

text \<open>\<open>xs.map(f)\<close> where \<open>f\<close> may throw: the first throw ends the map.\<close>

fun map_err :: "('a \<Rightarrow> error + 'b) \<Rightarrow> 'a list \<Rightarrow> error + 'b list" where
  "map_err f [] = Inr []"
| "map_err f (x # xs) =
     (case f x of
        Inl e \<Rightarrow> Inl e
      | Inr y \<Rightarrow> (case map_err f xs of Inl e \<Rightarrow> Inl e | Inr ys \<Rightarrow> Inr (y # ys)))"

section \<open>Options and the sanitizer\<close>

record options =
  includeSystemPrompt :: bool
  includeMessages :: bool
  includeTools :: bool
  maxMessageLength :: int

definition default_options :: options where
  "default_options =
     \<lparr>includeSystemPrompt = True, includeMessages = True, includeTools = False,
      maxMessageLength = 0\<rparr>"

text \<open>
  \<open>truncate\<close>, as declared on strings. \<open>substring(0, maxLength)\<close> clamps a negative end to 0.
\<close>

definition truncate_str :: "string \<Rightarrow> int \<Rightarrow> string" where
  "truncate_str str maxLength =
     (if maxLength = 0 \<or> int (length str) \<le> maxLength then str
      else take (nat maxLength) str @ ''... [truncated, ''
           @ show_int (int (length str) - maxLength) @ '' more chars]'')"

text \<open>
  A text block's \<open>text\<close> reaches \<open>truncate\<close> whenever it is truthy, string or not. A value
  that is not a string has no \<open>substring\<close> method: either the guard
  \<open>maxLength === 0 || str.length <= maxLength\<close> returns it as it is, or the call throws a
  TypeError. How the runtime compares the \<open>length\<close> property of such a value with the
  bound is its own business and comes in as the parameter \<open>len_le\<close>.
\<close>

definition truncate_any :: "(json \<Rightarrow> int \<Rightarrow> bool) \<Rightarrow> json \<Rightarrow> int \<Rightarrow> error + json" where
  "truncate_any len_le v maxLength =
     (case v of
        JStr s \<Rightarrow> Inr (JStr (truncate_str s maxLength))
      | _ \<Rightarrow> (if maxLength = 0 \<or> len_le v maxLength then Inr v else Inl TypeError))"

definition sanitize_item :: "(json \<Rightarrow> int \<Rightarrow> bool) \<Rightarrow> options \<Rightarrow> json \<Rightarrow> error + json" where
  "sanitize_item len_le opts item =
     (if nullish item then Inl TypeError
      else if field item ''type'' = JStr ''text'' \<and> truthy (field item ''text'') then
        (if maxMessageLength opts > 0 then
           (case truncate_any len_le (field item ''text'') (maxMessageLength opts) of
              Inl e \<Rightarrow> Inl e
            | Inr t \<Rightarrow> Inr (JObj [(''type'', JStr ''text''), (''text'', t)]))
         else Inr (JObj [(''type'', JStr ''text''), (''text'', field item ''text'')]))
      else if field item ''type'' = JStr ''image'' then
        Inr (JObj [(''type'', JStr ''image''), (''source'', JStr ''[IMAGE_DATA_OMITTED]'')])
      else if field item ''type'' = JStr ''tool_use'' then
        Inr (JObj [(''type'', JStr ''tool_use''), (''name'', field item ''name''),
                   (''id'', field item ''id'')])
      else if field item ''type'' = JStr ''tool_result'' then
        Inr (JObj [(''type'', JStr ''tool_result''),
                   (''tool_use_id'', field item ''tool_use_id'')])
      else Inr item)"

definition sanitize_msg :: "(json \<Rightarrow> int \<Rightarrow> bool) \<Rightarrow> options \<Rightarrow> json \<Rightarrow> error + json" where
  "sanitize_msg len_le opts msg =
     (if nullish msg then Inl TypeError
      else (case field msg ''content'' of
              JStr s \<Rightarrow>
                Inr (JObj [(''role'', field msg ''role''),
                           (''content'',
                            JStr (if maxMessageLength opts > 0
                                  then truncate_str s (maxMessageLength opts) else s))])
            | JArr items \<Rightarrow>
                (case map_err (sanitize_item len_le opts) items of
                   Inl e \<Rightarrow> Inl e
                 | Inr items' \<Rightarrow>
                     Inr (JObj [(''role'', field msg ''role''), (''content'', JArr items')]))
            | _ \<Rightarrow> Inr (JObj [(''role'', field msg ''role'')])))"

text \<open>
  \<open>sanitizeMessages\<close>. A truthy argument that is not an array has no \<open>map\<close> method.
\<close>

definition sanitizeMessages :: "(json \<Rightarrow> int \<Rightarrow> bool) \<Rightarrow> options \<Rightarrow> json \<Rightarrow> error + json" where
  "sanitizeMessages len_le opts messages =
     (if \<not> includeMessages opts then Inr (JArr [])
      else if \<not> truthy messages then Inr (JArr [])
      else (case messages of
              JArr msgs \<Rightarrow>
                (case map_err (sanitize_msg len_le opts) msgs of
                   Inl e \<Rightarrow> Inl e
                 | Inr msgs' \<Rightarrow> Inr (JArr msgs'))
            | _ \<Rightarrow> Inl TypeError))"

section \<open>The log record and the request\<close>

record request_summary =
  rq_model :: json
  rq_max_tokens :: json
  rq_temperature :: json
  rq_system :: json
  rq_messages :: json
  rq_tools :: json
  rq_stream :: json

record response_summary =
  res_id :: json
  res_model :: json
  res_role :: json
  res_content :: json
  res_fullText :: json
  res_stop_reason :: json
  res_stop_sequence :: json
  res_usage :: json

text \<open>
  \<open>RequestLogEntry\<close>. \<open>duration_ms\<close> is \<open>None\<close> for the NaN that \<open>Date.now() - undefined\<close>
  gives.
\<close>

record log_entry =
  timestamp :: string
  sessionId :: json
  preset :: json
  request :: request_summary
  response :: response_summary
  duration_ms :: "int option"
  error :: json

text \<open>\<open>response: {}\<close>.\<close>

definition empty_response :: response_summary where
  "empty_response =
     \<lparr>res_id = JUndef, res_model = JUndef, res_role = JUndef, res_content = JUndef,
      res_fullText = JUndef, res_stop_reason = JUndef, res_stop_sequence = JUndef,
      res_usage = JUndef\<rparr>"

text \<open>
  The parts of Fastify's request object that the hooks read and write. \<open>pathname\<close> is a
  string or undefined; \<open>requestStartTime\<close> and \<open>logEntry\<close> are the two properties the
  request hook adds.
\<close>

record fastify_request =
  pathname :: "string option"
  req_sessionId :: json
  req_preset :: json
  body :: json
  requestStartTime :: "int option"
  logEntry :: "log_entry option"

text \<open>
  The log file and the server's own log. \<open>logFile\<close> holds the records appended so far, one
  element for each line \<open>JSON.stringify(logEntry) + '\n'\<close>, as the entry was when it was
  written. \<open>writable\<close> says whether \<open>appendFile\<close> succeeds; \<open>errlog\<close> collects the
  errors whose message \<open>fastify.log.error\<close> reports; \<open>unhandled\<close> collects what a
  detached task throws with nobody to catch it. \<open>callerTaken\<close> is the pace of the caller:
  how many chunks it has taken from its branch of a stream when an error of the source
  reaches that branch.
\<close>

record world =
  logFile :: "log_entry list"
  writable :: bool
  errlog :: "error list"
  unhandled :: "error list"
  callerTaken :: nat

definition appendFile :: "world \<Rightarrow> log_entry \<Rightarrow> error + world" where
  "appendFile w e = (if writable w then Inr (w\<lparr>logFile := logFile w @ [e]\<rparr>) else Inl IOError)"

section \<open>The request hook\<close>

definition path_matches :: "fastify_request \<Rightarrow> bool" where
  "path_matches req =
     (case pathname req of None \<Rightarrow> False | Some p \<Rightarrow> endsWith p ''/v1/messages'')"

definition system_of :: "options \<Rightarrow> json \<Rightarrow> json" where
  "system_of opts b =
     (if includeSystemPrompt opts \<and> truthy (field b ''system'') then
        (case field b ''system'' of
           JStr s \<Rightarrow> JStr (if maxMessageLength opts > 0
                          then truncate_str s (maxMessageLength opts * 2) else s)
         | v \<Rightarrow> v)
      else JUndef)"

definition tool_descriptor :: "json \<Rightarrow> error + json" where
  "tool_descriptor tool =
     (if nullish tool then Inl TypeError
      else Inr (JObj [(''name'', field tool ''name''),
                      (''description'', field tool ''description'')]))"

definition tools_of :: "options \<Rightarrow> json \<Rightarrow> error + json" where
  "tools_of opts b =
     (if includeTools opts \<and> truthy (field b ''tools'') then
        (case field b ''tools'' of
           JArr ts \<Rightarrow>
             (case map_err tool_descriptor ts of Inl e \<Rightarrow> Inl e | Inr ds \<Rightarrow> Inr (JArr ds))
         | _ \<Rightarrow> Inl TypeError)
      else Inr JUndef)"

text \<open>
  \<open>preHandler\<close>. \<open>now\<close> is the reading of \<open>Date.now()\<close> and \<open>isoNow\<close> that of
  \<open>new Date().toISOString()\<close>. A throw leaves \<open>requestStartTime\<close> set and \<open>logEntry\<close>
  unset.
\<close>

definition preHandler ::
  "(json \<Rightarrow> int \<Rightarrow> bool) \<Rightarrow> options \<Rightarrow> int \<Rightarrow> string \<Rightarrow> fastify_request
     \<Rightarrow> (error + unit) \<times> fastify_request" where
  "preHandler len_le opts now isoNow req =
     (if \<not> path_matches req then (Inr (), req)
      else
        (let req1 = req\<lparr>requestStartTime := Some now\<rparr>;
             b = body req;
             msgs_in = (if truthy (field b ''messages'') then field b ''messages'' else JArr [])
         in case sanitizeMessages len_le opts msgs_in of
              Inl e \<Rightarrow> (Inl e, req1)
            | Inr msgs \<Rightarrow>
                (case tools_of opts b of
                   Inl e \<Rightarrow> (Inl e, req1)
                 | Inr tools \<Rightarrow>
                     (Inr (),
                      req1\<lparr>logEntry := Some
                        \<lparr>timestamp = isoNow,
                         sessionId = (if truthy (req_sessionId req) then req_sessionId req
                                      else JStr ''unknown''),
                         preset = req_preset req,
                         request =
                           \<lparr>rq_model = field b ''model'',
                            rq_max_tokens = field b ''max_tokens'',
                            rq_temperature = field b ''temperature'',
                            rq_system = system_of opts b,
                            rq_messages = msgs,
                            rq_tools = tools,
                            rq_stream = field b ''stream''\<rparr>,
                         response = empty_response,
                         duration_ms = None,
                         error = JUndef\<rparr>\<rparr>))))"

section \<open>The streaming collector\<close>

text \<open>
  A \<open>ReadableStream\<close> is the finite run of chunks that the source hands out, ended either
  by \<open>done\<close> or by an error with its reason (any value, \<open>undefined\<close> when none was given),
  on which the pending \<open>read()\<close> rejects with that reason. A chunk is given by the text
  that \<open>decoder.decode(value, {stream: true})\<close> yields for it.
\<close>

datatype stream_end = Done | Errored json

datatype rstream = RStream (chunks: "string list") (ending: stream_end)

text \<open>
  \<open>tee()\<close>. Every chunk read from the source is put on the queues of both branches, and
  the close or the error of the source is passed to both. The logging branch is read by a
  loop that asks for the next chunk as soon as it has handled one, so it gets all of them.
  The caller's branch is read at the caller's pace: a close waits for the queue to be
  emptied, but an error resets the queue, so the caller gets the chunks it has taken by
  then (\<open>k\<close> of them) and after those the error.
\<close>

definition caller_branch :: "nat \<Rightarrow> rstream \<Rightarrow> rstream" where
  "caller_branch k s =
     (case ending s of
        Done \<Rightarrow> s
      | Errored r \<Rightarrow> RStream (take k (chunks s)) (Errored r))"

definition tee :: "nat \<Rightarrow> rstream \<Rightarrow> rstream \<times> rstream" where
  "tee k s = (s, caller_branch k s)"

text \<open>
  The local variables of the background task, and the log entry it shares with the request.
\<close>

record collector =
  fullText :: string
  lastUsage :: json
  lastStopReason :: json
  messageId :: json
  model :: json
  entry :: log_entry

definition init_collector :: "log_entry \<Rightarrow> collector" where
  "init_collector e =
     \<lparr>fullText = [], lastUsage = JNull, lastStopReason = JUndef, messageId = JUndef,
      model = JUndef, entry = e\<rparr>"

text \<open>
  \<open>fullText += v\<close> for a truthy \<open>v\<close>: a string is appended as it is, anything else through
  the runtime's string conversion \<open>toStr\<close>.
\<close>

definition to_text :: "(json \<Rightarrow> string) \<Rightarrow> json \<Rightarrow> string" where
  "to_text toStr v = (case v of JStr s \<Rightarrow> s | _ \<Rightarrow> toStr v)"

text \<open>
  The body of the \<open>try\<close> block after \<open>JSON.parse\<close> has returned \<open>data\<close>. The \<open>catch\<close>
  swallows every throw, so a throw is the state reached so far: \<open>data.type\<close> throws on
  \<open>null\<close>, and \<open>push\<close> throws when \<open>response.content\<close> is truthy and not an array.
\<close>

definition message_delta :: "json \<Rightarrow> collector \<Rightarrow> collector" where
  "message_delta data st =
     (if field data ''type'' = JStr ''message_delta'' then
        (let st1 = (if truthy (field data ''usage'')
                    then st\<lparr>lastUsage := field data ''usage''\<rparr> else st)
         in if truthy (field (field data ''delta'') ''stop_reason'')
            then st1\<lparr>lastStopReason := field (field data ''delta'') ''stop_reason''\<rparr>
            else st1)
      else st)"

definition process_data :: "(json \<Rightarrow> string) \<Rightarrow> json \<Rightarrow> collector \<Rightarrow> collector" where
  "process_data toStr data st =
     (if nullish data then st
      else
        (let ty = field data ''type'';
             st1 = (if ty = JStr ''message_start''
                    then st\<lparr>messageId := field (field data ''message'') ''id'',
                            model := field (field data ''message'') ''model''\<rparr>
                    else st);
             st2 = (if ty = JStr ''content_block_delta''
                       \<and> truthy (field (field data ''delta'') ''text'')
                    then st1\<lparr>fullText :=
                              fullText st1 @ to_text toStr (field (field data ''delta'') ''text'')\<rparr>
                    else st1)
         in if ty = JStr ''content_block_start''
               \<and> field (field data ''content_block'') ''type'' = JStr ''tool_use''
            then
              (let e = entry st2;
                   c = (if truthy (res_content (response e)) then res_content (response e)
                        else JArr []);
                   block = JObj [(''type'', JStr ''tool_use''),
                                 (''name'', field (field data ''content_block'') ''name''),
                                 (''id'', field (field data ''content_block'') ''id'')]
               in case c of
                    JArr xs \<Rightarrow>
                      message_delta data
                        (st2\<lparr>entry := e\<lparr>response :=
                                (response e)\<lparr>res_content := JArr (xs @ [block])\<rparr>\<rparr>\<rparr>)
                  | _ \<Rightarrow> st2)
            else message_delta data st2))"

text \<open>
  One line of a chunk. \<open>parse\<close> is \<open>JSON.parse\<close>, with \<open>None\<close> for its SyntaxError.
\<close>

definition process_line ::
  "(string \<Rightarrow> json option) \<Rightarrow> (json \<Rightarrow> string) \<Rightarrow> collector \<Rightarrow> string \<Rightarrow> collector" where
  "process_line parse toStr st line =
     (if startsWith line ''data: '' then
        (case parse (drop 6 line) of
           None \<Rightarrow> st
         | Some data \<Rightarrow> process_data toStr data st)
      else st)"

definition process_chunk ::
  "(string \<Rightarrow> json option) \<Rightarrow> (json \<Rightarrow> string) \<Rightarrow> collector \<Rightarrow> string \<Rightarrow> collector" where
  "process_chunk parse toStr st chunk = foldl (process_line parse toStr) st (split_nl chunk)"

definition read_loop ::
  "(string \<Rightarrow> json option) \<Rightarrow> (json \<Rightarrow> string) \<Rightarrow> collector \<Rightarrow> string list \<Rightarrow> collector" where
  "read_loop parse toStr st cs = foldl (process_chunk parse toStr) st cs"

text \<open>The assignments after the loop.\<close>

definition finalize :: "collector \<Rightarrow> log_entry" where
  "finalize st =
     (let e = entry st;
          r = (response e)\<lparr>res_id := messageId st, res_model := model st,
                            res_fullText := JStr (fullText st),
                            res_stop_reason := lastStopReason st\<rparr>
      in e\<lparr>response := (if truthy (lastUsage st) then r\<lparr>res_usage := lastUsage st\<rparr> else r)\<rparr>)"

text \<open>
  The background task, run to its end: the entry as the task leaves it and the world after
  it. A rejected read and a failed append both land in the \<open>catch\<close>, which writes
  nothing and reports \<open>error.message\<close> to the server log. Reading \<open>error.message\<close>
  throws when the stream was errored with \<open>undefined\<close> or \<open>null\<close>: then nothing is
  reported and the task ends with a TypeError that nobody handles.
\<close>

definition collect ::
  "(string \<Rightarrow> json option) \<Rightarrow> (json \<Rightarrow> string) \<Rightarrow> rstream \<Rightarrow> log_entry \<Rightarrow> world
     \<Rightarrow> log_entry \<times> world" where
  "collect parse toStr s e w =
     (let st = read_loop parse toStr (init_collector e) (chunks s)
      in case ending s of
           Errored r \<Rightarrow>
             (entry st,
              if nullish r then w\<lparr>unhandled := unhandled w @ [TypeError]\<rparr>
              else w\<lparr>errlog := errlog w @ [StreamError r]\<rparr>)
         | Done \<Rightarrow>
             (case appendFile w (finalize st) of
                Inl x \<Rightarrow> (finalize st, w\<lparr>errlog := errlog w @ [x]\<rparr>)
              | Inr w' \<Rightarrow> (finalize st, w')))"

section \<open>The outbound hook and the error hook\<close>

datatype payload = PStream rstream | PValue json

text \<open>
  \<open>join('\n')\<close> prints \<open>undefined\<close> and \<open>null\<close> as the empty string, a string as itself,
  and anything else through the runtime's string conversion.
\<close>

definition join_text :: "(json \<Rightarrow> string) \<Rightarrow> json \<Rightarrow> string" where
  "join_text toStr v = (case v of JUndef \<Rightarrow> [] | JNull \<Rightarrow> [] | JStr s \<Rightarrow> s | _ \<Rightarrow> toStr v)"

text \<open>
  \<open>content.filter(item => item.type === 'text').map(item => item.text).join('\n')\<close>; the
  filter throws on a nullish element.
\<close>

definition text_content :: "(json \<Rightarrow> string) \<Rightarrow> json list \<Rightarrow> error + string" where
  "text_content toStr items =
     (if list_ex nullish items then Inl TypeError
      else Inr (join_nl (map (\<lambda>item. join_text toStr (field item ''text''))
                             (filter (\<lambda>item. field item ''type'' = JStr ''text'') items))))"

text \<open>
  The non-streaming branch up to the append: the entry as the branch leaves it, and the
  throw if there is one (\<open>payload.error\<close> on \<open>null\<close>, or the filter on a nullish block).
\<close>

definition direct_fill :: "(json \<Rightarrow> string) \<Rightarrow> json \<Rightarrow> log_entry \<Rightarrow> error option \<times> log_entry" where
  "direct_fill toStr p e =
     (if nullish p then (Some TypeError, e)
      else if truthy (field p ''error'') then
        (None, e\<lparr>error := JObj [(''type'', field (field p ''error'') ''type''),
                                  (''message'', field (field p ''error'') ''message'')]\<rparr>)
      else
        (let r = (response e)\<lparr>res_id := field p ''id'', res_model := field p ''model'',
                               res_role := field p ''role'', res_content := field p ''content'',
                               res_stop_reason := field p ''stop_reason'',
                               res_stop_sequence := field p ''stop_sequence'',
                               res_usage := field p ''usage''\<rparr>
         in case field p ''content'' of
              JArr items \<Rightarrow>
                (case text_content toStr items of
                   Inl x \<Rightarrow> (Some x, e\<lparr>response := r\<rparr>)
                 | Inr t \<Rightarrow>
                     (None, e\<lparr>response := (if t \<noteq> [] then r\<lparr>res_fullText := JStr t\<rparr> else r)\<rparr>))
            | _ \<Rightarrow> (None, e\<lparr>response := r\<rparr>)))"

text \<open>
  \<open>onSend\<close>. The result is what the hook returns or throws, with the request and the world
  as they are once the hook and, for a stream, its background task have finished.
\<close>

definition onSend ::
  "(string \<Rightarrow> json option) \<Rightarrow> (json \<Rightarrow> string) \<Rightarrow> int \<Rightarrow> fastify_request \<Rightarrow> world \<Rightarrow> payload
     \<Rightarrow> (error + payload) \<times> fastify_request \<times> world" where
  "onSend parse toStr now req w pl =
     (case logEntry req of
        None \<Rightarrow> (Inr pl, req, w)
      | Some e0 \<Rightarrow>
          (let e = e0\<lparr>duration_ms := map_option (\<lambda>t. now - t) (requestStartTime req)\<rparr>
           in case pl of
                PStream s \<Rightarrow>
                  (case tee (callerTaken w) s of
                     (loggingStream, originalStream) \<Rightarrow>
                       (case collect parse toStr loggingStream e w of
                          (e', w') \<Rightarrow>
                            (Inr (PStream originalStream), req\<lparr>logEntry := Some e'\<rparr>, w')))
              | PValue v \<Rightarrow>
                  (if typeof_object v then
                     (case direct_fill toStr v e of
                        (Some x, e') \<Rightarrow> (Inl x, req\<lparr>logEntry := Some e'\<rparr>, w)
                      | (None, e') \<Rightarrow>
                          (case appendFile w e' of
                             Inl x \<Rightarrow> (Inl x, req\<lparr>logEntry := Some e'\<rparr>, w)
                           | Inr w' \<Rightarrow> (Inr pl, req\<lparr>logEntry := Some e'\<rparr>, w')))
                   else (Inr pl, req\<lparr>logEntry := Some e\<rparr>, w))))"

text \<open>\<open>onError\<close>; reading \<open>error.message\<close> throws on a nullish error value.\<close>

definition onError ::
  "int \<Rightarrow> fastify_request \<Rightarrow> world \<Rightarrow> json \<Rightarrow> (error + unit) \<times> fastify_request \<times> world" where
  "onError now req w err =
     (case logEntry req of
        None \<Rightarrow> (Inr (), req, w)
      | Some e0 \<Rightarrow>
          (let e = e0\<lparr>duration_ms := map_option (\<lambda>t. now - t) (requestStartTime req)\<rparr>
           in if nullish err then (Inl TypeError, req\<lparr>logEntry := Some e\<rparr>, w)
              else
                (let e' = e\<lparr>error := JObj [(''message'', field err ''message''),
                                             (''stack'', field err ''stack''),
                                             (''code'', field err ''code'')]\<rparr>
                 in case appendFile w e' of
                      Inl x \<Rightarrow> (Inl x, req\<lparr>logEntry := Some e'\<rparr>, w)
                    | Inr w' \<Rightarrow> (Inr (), req\<lparr>logEntry := Some e'\<rparr>, w'))))"

section \<open>Notions used in the statements\<close>

text \<open>The lines the collector looks at, chunk after chunk, in the order it meets them.\<close>

definition stream_lines :: "string list \<Rightarrow> string list" where
  "stream_lines cs = concat (map split_nl cs)"

text \<open>A line that the collector reads as a \<open>message_start\<close> event.\<close>

definition is_message_start :: "(string \<Rightarrow> json option) \<Rightarrow> string \<Rightarrow> bool" where
  "is_message_start parse line =
     (startsWith line ''data: '' \<and>
      (case parse (drop 6 line) of
         None \<Rightarrow> False
       | Some d \<Rightarrow> field d ''type'' = JStr ''message_start''))"

text \<open>
  The text that one line carries as a \<open>content_block_delta\<close> frame, empty for every other
  line: the frames of a stream are the lines of its bytes, whatever the chunking.
\<close>

definition delta_text :: "(string \<Rightarrow> json option) \<Rightarrow> (json \<Rightarrow> string) \<Rightarrow> string \<Rightarrow> string" where
  "delta_text parse toStr line =
     (if startsWith line ''data: '' then
        (case parse (drop 6 line) of
           None \<Rightarrow> []
         | Some d \<Rightarrow>
             (if field d ''type'' = JStr ''content_block_delta''
                 \<and> truthy (field (field d ''delta'') ''text'')
              then to_text toStr (field (field d ''delta'') ''text'') else []))
      else [])"


text \<open>
  The \<open>text\<close> fields of the blocks tagged \<open>text\<close>, joined with a line feed between
  neighbours.
\<close>

definition joined_text :: "(json \<Rightarrow> string) \<Rightarrow> json list \<Rightarrow> string" where
  "joined_text toStr items =
     join_nl (map (\<lambda>item. join_text toStr (field item ''text''))
                  (filter (\<lambda>item. field item ''type'' = JStr ''text'') items))"

text \<open>Every chunk ends with a line feed: no line is cut by a chunk boundary.\<close>

definition line_aligned :: "string list \<Rightarrow> bool" where
  "line_aligned cs = list_all (\<lambda>c. c \<noteq> [] \<and> last c = CHR 0x0A) cs"





section \<open>Sample inputs\<close>

text \<open>
  Concrete inputs on which the theorems below are exercised. \<open>sample_parse\<close> answers as
  \<open>JSON.parse\<close> does on the frame bodies listed here and rejects everything else; the only
  other strings it is given below are \<open>body_cut\<close>, a frame body cut off in the middle of a
  key, and \<open>{oops\<close>, neither of which is JSON. \<open>sample_toStr\<close> is the string conversion on
  numbers, booleans and plain objects, \<open>sample_len_le\<close> the comparison
  \<open>v.length <= n\<close> on numbers, booleans, arrays and objects without a \<open>length\<close> key.
\<close>

definition body_start1 :: string where
  \<open>body_start1 = ''{"type":"message_start","message":{"id":"x1","model":"m1"}}''\<close>

definition body_start2 :: string where
  \<open>body_start2 = ''{"type":"message_start","message":{"id":"x2","model":"m2"}}''\<close>

definition body_delta1 :: string where
  \<open>body_delta1 = ''{"type":"content_block_delta","delta":{"text":"Hi"}}''\<close>

definition body_delta2 :: string where
  \<open>body_delta2 = ''{"type":"content_block_delta","delta":{"text":" there"}}''\<close>

definition body_stop :: string where
  \<open>body_stop = ''{"type":"message_delta","delta":{"stop_reason":"end_turn"},"usage":{"input_tokens":5,"output_tokens":2}}''\<close>

definition body_cut :: string where
  \<open>body_cut = ''{"type":"content_block_delta","delta":{"te''\<close>

definition body_rest :: string where
  \<open>body_rest = ''xt":"Hi"}}''\<close>

definition sample_parse :: "string \<Rightarrow> json option" where
  "sample_parse s =
     (if s = body_start1 then
        Some (JObj [(''type'', JStr ''message_start''),
                    (''message'', JObj [(''id'', JStr ''x1''), (''model'', JStr ''m1'')])])
      else if s = body_start2 then
        Some (JObj [(''type'', JStr ''message_start''),
                    (''message'', JObj [(''id'', JStr ''x2''), (''model'', JStr ''m2'')])])
      else if s = body_delta1 then
        Some (JObj [(''type'', JStr ''content_block_delta''),
                    (''delta'', JObj [(''text'', JStr ''Hi'')])])
      else if s = body_delta2 then
        Some (JObj [(''type'', JStr ''content_block_delta''),
                    (''delta'', JObj [(''text'', JStr '' there'')])])
      else if s = body_stop then
        Some (JObj [(''type'', JStr ''message_delta''),
                    (''delta'', JObj [(''stop_reason'', JStr ''end_turn'')]),
                    (''usage'', JObj [(''input_tokens'', JNum 5), (''output_tokens'', JNum 2)])])
      else None)"

definition sample_toStr :: "json \<Rightarrow> string" where
  "sample_toStr v =
     (case v of
        JNum n \<Rightarrow> show_int n
      | JBool b \<Rightarrow> (if b then ''true'' else ''false'')
      | _ \<Rightarrow> ''[object Object]'')"

definition sample_len_le :: "json \<Rightarrow> int \<Rightarrow> bool" where
  "sample_len_le v n = (case v of JArr xs \<Rightarrow> int (length xs) \<le> n | _ \<Rightarrow> False)"

text \<open>An event frame as it travels: the prefix, the body, a line feed.\<close>

definition frame :: "string \<Rightarrow> string" where
  "frame b = ''data: '' @ b @ [CHR 0x0A]"

definition sample_request :: fastify_request where
  "sample_request =
     \<lparr>pathname = Some ''/v1/messages'', req_sessionId = JStr ''s1'', req_preset = JUndef,
      body = JObj [(''model'', JStr ''m1''), (''stream'', JBool True),
                   (''messages'',
                    JArr [JObj [(''role'', JStr ''user''), (''content'', JStr ''hello'')]])],
      requestStartTime = None, logEntry = None\<rparr>"

text \<open>The request after the request hook has run on it at time 100.\<close>

definition captured_request :: fastify_request where
  "captured_request =
     snd (preHandler sample_len_le default_options 100 ''2025-01-01T00:00:00.000Z''
            sample_request)"

definition sample_entry :: log_entry where
  "sample_entry =
     \<lparr>timestamp = ''2025-01-01T00:00:00.000Z'', sessionId = JStr ''s1'', preset = JUndef,
      request =
        \<lparr>rq_model = JStr ''m1'', rq_max_tokens = JUndef, rq_temperature = JUndef,
         rq_system = JUndef,
         rq_messages = JArr [JObj [(''role'', JStr ''user''), (''content'', JStr ''hello'')]],
         rq_tools = JUndef, rq_stream = JBool True\<rparr>,
      response = empty_response, duration_ms = None, error = JUndef\<rparr>"

definition sample_world :: world where
  "sample_world =
     \<lparr>logFile = [], writable = True, errlog = [], unhandled = [], callerTaken = 0\<rparr>"

text \<open>Payloads of the direct path and a thrown error, as the hooks receive them.\<close>

definition sample_blocks :: "json list" where
  "sample_blocks =
     [JObj [(''type'', JStr ''text''), (''text'', JStr ''a'')],
      JObj [(''type'', JStr ''tool_use''), (''name'', JStr ''ls''), (''id'', JStr ''tu_1'')],
      JObj [(''type'', JStr ''text''), (''text'', JStr ''b'')]]"

definition success_payload :: json where
  "success_payload =
     JObj [(''id'', JStr ''msg_1''), (''model'', JStr ''m1''), (''role'', JStr ''assistant''),
           (''content'', JArr sample_blocks), (''stop_reason'', JStr ''end_turn''),
           (''usage'', JObj [(''input_tokens'', JNum 5), (''output_tokens'', JNum 2)])]"

definition blank_payload :: json where
  "blank_payload =
     JObj [(''id'', JStr ''msg_2''),
           (''content'', JArr [JObj [(''type'', JStr ''text''), (''text'', JStr [])]])]"

definition error_payload :: json where
  "error_payload =
     JObj [(''type'', JStr ''error''),
           (''error'', JObj [(''type'', JStr ''overloaded_error''),
                             (''message'', JStr ''Overloaded''), (''retry'', JBool True)])]"





section \<open>Basic facts\<close>

lemma field_JStr_not_nullish: "field v k = JStr s \<Longrightarrow> \<not> nullish v"
  by (cases v) simp_all

lemma captured_request_eq:
  "captured_request =
     sample_request\<lparr>requestStartTime := Some 100, logEntry := Some sample_entry\<rparr>"
  by code_simp

text \<open>
  The two worked examples of the specification. The request
  \<open>{model: "m1", messages: [{role: "user", content: "hello"}]}\<close> under the default options is
  captured with its one message as it is, without tools and without a system prompt
  (\<open>captured_request_eq\<close>, with \<open>sample_entry\<close>). The stream of a \<open>message_start\<close>, two
  text deltas and a \<open>message_delta\<close>, one frame to a line, is summed up and written as the
  specification says.
\<close>

lemma stream_example:
  "collect sample_parse sample_toStr
     (RStream [frame body_start1, frame body_delta1 @ frame body_delta2, frame body_stop] Done)
     sample_entry sample_world
   = (sample_entry\<lparr>response :=
        \<lparr>res_id = JStr ''x1'', res_model = JStr ''m1'', res_role = JUndef,
         res_content = JUndef, res_fullText = JStr ''Hi there'',
         res_stop_reason = JStr ''end_turn'', res_stop_sequence = JUndef,
         res_usage = JObj [(''input_tokens'', JNum 5), (''output_tokens'', JNum 2)]\<rparr>\<rparr>,
      sample_world\<lparr>logFile :=
        [sample_entry\<lparr>response :=
           \<lparr>res_id = JStr ''x1'', res_model = JStr ''m1'', res_role = JUndef,
            res_content = JUndef, res_fullText = JStr ''Hi there'',
            res_stop_reason = JStr ''end_turn'', res_stop_sequence = JUndef,
            res_usage = JObj [(''input_tokens'', JNum 5), (''output_tokens'', JNum 2)]\<rparr>\<rparr>]\<rparr>)"
  by code_simp

section \<open>The sanitizer\<close>

text \<open>
  C5. With a bound \<open>N\<close> and a string \<open>text\<close> of length \<open>L\<close>: when \<open>0 < N < L\<close>,
  \<open>truncate\<close> gives the first \<open>N\<close> characters of the text followed by the marker that
  names \<open>L - N\<close>, and that is the sanitized text of a message whose content is the string
  and of a text block that holds it; when \<open>N = 0\<close>, or \<open>L \<le> N\<close>, all three leave the
  text as it is.
\<close>

theorem truncation_marker:
  assumes "field msg ''content'' = JStr text"
      and "field item ''type'' = JStr ''text''" and "field item ''text'' = JStr text"
  shows "(0 < N \<and> N < int (length text) \<longrightarrow>
            truncate_str text N
              = take (nat N) text @ ''... [truncated, ''
                  @ show_int (int (length text) - N) @ '' more chars]''
            \<and> sanitize_msg len_le (opts\<lparr>maxMessageLength := N\<rparr>) msg
                = Inr (JObj [(''role'', field msg ''role''),
                             (''content'', JStr (truncate_str text N))])
            \<and> sanitize_item len_le (opts\<lparr>maxMessageLength := N\<rparr>) item
                = Inr (JObj [(''type'', JStr ''text''), (''text'', JStr (truncate_str text N))]))
       \<and> (N = 0 \<or> int (length text) \<le> N \<longrightarrow>
            truncate_str text N = text
            \<and> sanitize_msg len_le (opts\<lparr>maxMessageLength := N\<rparr>) msg
                = Inr (JObj [(''role'', field msg ''role''), (''content'', JStr text)])
            \<and> (text \<noteq> [] \<longrightarrow>
                  sanitize_item len_le (opts\<lparr>maxMessageLength := N\<rparr>) item
                    = Inr (JObj [(''type'', JStr ''text''), (''text'', JStr text)])))"
proof (intro conjI impI)
  assume long: "0 < N \<and> N < int (length text)"
  then show "truncate_str text N
      = take (nat N) text @ ''... [truncated, ''
          @ show_int (int (length text) - N) @ '' more chars]''"
    by (simp add: truncate_str_def)
  from long assms(1) field_JStr_not_nullish [OF assms(1)]
  show "sanitize_msg len_le (opts\<lparr>maxMessageLength := N\<rparr>) msg
      = Inr (JObj [(''role'', field msg ''role''), (''content'', JStr (truncate_str text N))])"
    by (simp add: sanitize_msg_def)
  from long have "text \<noteq> []"
    by auto
  with long assms(2,3) field_JStr_not_nullish [OF assms(2)]
  show "sanitize_item len_le (opts\<lparr>maxMessageLength := N\<rparr>) item
      = Inr (JObj [(''type'', JStr ''text''), (''text'', JStr (truncate_str text N))])"
    by (simp add: sanitize_item_def truncate_any_def)
next
  assume short: "N = 0 \<or> int (length text) \<le> N"
  then show same: "truncate_str text N = text"
    by (auto simp add: truncate_str_def)
  from assms(1) field_JStr_not_nullish [OF assms(1)] same
  show "sanitize_msg len_le (opts\<lparr>maxMessageLength := N\<rparr>) msg
      = Inr (JObj [(''role'', field msg ''role''), (''content'', JStr text)])"
    by (simp add: sanitize_msg_def)
  assume "text \<noteq> []"
  with assms(2,3) field_JStr_not_nullish [OF assms(2)] same
  show "sanitize_item len_le (opts\<lparr>maxMessageLength := N\<rparr>) item
      = Inr (JObj [(''type'', JStr ''text''), (''text'', JStr text)])"
    by (simp add: sanitize_item_def truncate_any_def)
qed

theorem truncation_marker_witness:
  "field (JObj [(''role'', JStr ''user''), (''content'', JStr ''hello world, this'')])
      ''content'' = JStr ''hello world, this''
   \<and> field (JObj [(''type'', JStr ''text''), (''text'', JStr ''hello world, this''),
                  (''cache_control'', JNull)]) ''type'' = JStr ''text''
   \<and> field (JObj [(''type'', JStr ''text''), (''text'', JStr ''hello world, this''),
                  (''cache_control'', JNull)]) ''text'' = JStr ''hello world, this''
   \<and> (0::int) < 3 \<and> (3::int) < int (length ''hello world, this'')
   \<and> truncate_str ''hello world, this'' 3 = ''hel... [truncated, 14 more chars]''
   \<and> sanitize_msg sample_len_le (default_options\<lparr>maxMessageLength := 3\<rparr>)
        (JObj [(''role'', JStr ''user''), (''content'', JStr ''hello world, this'')])
      = Inr (JObj [(''role'', JStr ''user''),
                   (''content'', JStr ''hel... [truncated, 14 more chars]'')])
   \<and> sanitize_item sample_len_le (default_options\<lparr>maxMessageLength := 3\<rparr>)
        (JObj [(''type'', JStr ''text''), (''text'', JStr ''hello world, this''),
               (''cache_control'', JNull)])
      = Inr (JObj [(''type'', JStr ''text''),
                   (''text'', JStr ''hel... [truncated, 14 more chars]'')])
   \<and> truncate_str ''hello world, this'' 0 = ''hello world, this''
   \<and> sanitize_msg sample_len_le (default_options\<lparr>maxMessageLength := 0\<rparr>)
        (JObj [(''role'', JStr ''user''), (''content'', JStr ''hello world, this'')])
      = Inr (JObj [(''role'', JStr ''user''), (''content'', JStr ''hello world, this'')])
   \<and> int (length ''hello world, this'') \<le> 17
   \<and> sanitize_item sample_len_le (default_options\<lparr>maxMessageLength := 17\<rparr>)
        (JObj [(''type'', JStr ''text''), (''text'', JStr ''hello world, this''),
               (''cache_control'', JNull)])
      = Inr (JObj [(''type'', JStr ''text''), (''text'', JStr ''hello world, this'')])"
proof -
  let ?msg = "JObj [(''role'', JStr ''user''), (''content'', JStr ''hello world, this'')]"
  let ?item = "JObj [(''type'', JStr ''text''), (''text'', JStr ''hello world, this''),
                     (''cache_control'', JNull)]"
  have m: "field ?msg ''content'' = JStr ''hello world, this''" by simp
  have i1: "field ?item ''type'' = JStr ''text''" by simp
  have i2: "field ?item ''text'' = JStr ''hello world, this''" by simp
  have len: "(0::int) < 3 \<and> (3::int) < int (length ''hello world, this'')"
    by simp
  have fits: "int (length ''hello world, this'') \<le> 17"
    by simp
  have cut: "truncate_str ''hello world, this'' 3 = ''hel... [truncated, 14 more chars]''"
    by (simp add: truncate_str_def show_int_def)
  note three = truncation_marker [OF m i1 i2, of 3 sample_len_le default_options]
  note zero = truncation_marker [OF m i1 i2, of 0 sample_len_le default_options]
  note full = truncation_marker [OF m i1 i2, of 17 sample_len_le default_options]
  show ?thesis
    using m i1 i2 len fits cut three zero full by simp
qed

text \<open>
  C10. A block tagged \<open>text\<close> whose \<open>text\<close> is the empty string or is missing fails the
  test \<open>item.type === 'text' && item.text\<close> and matches none of the other tags, so the
  sanitizer hands back the block itself, with every field it has; a message whose content
  is that one block keeps it.
\<close>

theorem empty_text_block_unchanged:
  "field item ''type'' = JStr ''text'' \<Longrightarrow>
   field item ''text'' = JStr [] \<or> field item ''text'' = JUndef \<Longrightarrow>
   sanitize_item len_le opts item = Inr item
   \<and> sanitize_msg len_le opts (JObj [(''role'', r), (''content'', JArr [item])])
       = Inr (JObj [(''role'', r), (''content'', JArr [item])])"
  by (auto simp add: sanitize_item_def sanitize_msg_def dest: field_JStr_not_nullish)

theorem empty_text_block_unchanged_witness:
  "field (JObj [(''type'', JStr ''text''), (''text'', JStr []),
                (''cache_control'', JObj [(''type'', JStr ''ephemeral'')])]) ''type''
     = JStr ''text''
   \<and> field (JObj [(''type'', JStr ''text''), (''text'', JStr []),
                  (''cache_control'', JObj [(''type'', JStr ''ephemeral'')])]) ''text''
     = JStr []
   \<and> sanitize_item sample_len_le (default_options\<lparr>maxMessageLength := 3\<rparr>)
        (JObj [(''type'', JStr ''text''), (''text'', JStr []),
               (''cache_control'', JObj [(''type'', JStr ''ephemeral'')])])
      = Inr (JObj [(''type'', JStr ''text''), (''text'', JStr []),
                   (''cache_control'', JObj [(''type'', JStr ''ephemeral'')])])
   \<and> field (JObj [(''type'', JStr ''text''), (''citations'', JArr [])]) ''text'' = JUndef
   \<and> sanitize_item sample_len_le default_options
        (JObj [(''type'', JStr ''text''), (''citations'', JArr [])])
      = Inr (JObj [(''type'', JStr ''text''), (''citations'', JArr [])])"
proof -
  let ?a = "JObj [(''type'', JStr ''text''), (''text'', JStr []),
                  (''cache_control'', JObj [(''type'', JStr ''ephemeral'')])]"
  let ?b = "JObj [(''type'', JStr ''text''), (''citations'', JArr [])]"
  have a1: "field ?a ''type'' = JStr ''text''" by simp
  have a2: "field ?a ''text'' = JStr [] \<or> field ?a ''text'' = JUndef" by simp
  have b1: "field ?b ''type'' = JStr ''text''" by simp
  have b2: "field ?b ''text'' = JStr [] \<or> field ?b ''text'' = JUndef" by simp
  show ?thesis
    using a1 a2 b2
      empty_text_block_unchanged [OF a1 a2, of sample_len_le
        "default_options\<lparr>maxMessageLength := 3\<rparr>" JUndef]
      empty_text_block_unchanged [OF b1 b2, of sample_len_le default_options JUndef]
    by simp
qed

section \<open>Requests to other paths\<close>

text \<open>
  C8. A request whose path does not end with \<open>/v1/messages\<close> (or has no path) comes to the
  hooks without a log entry. The request hook returns without touching it, so it stays
  without one; the outbound hook returns its payload and the error hook returns, both
  leaving the request, the log file and the server log as they were.
\<close>

theorem other_paths_untouched:
  assumes "\<not> path_matches req" and "logEntry req = None"
  shows "preHandler len_le opts now isoNow req = (Inr (), req)
       \<and> onSend parse toStr now' req w pl = (Inr pl, req, w)
       \<and> onError now'' req w err = (Inr (), req, w)"
  using assms by (simp add: preHandler_def onSend_def onError_def)

theorem other_paths_untouched_witness:
  "\<not> path_matches (sample_request\<lparr>pathname := Some ''/v1/models''\<rparr>)
   \<and> logEntry (sample_request\<lparr>pathname := Some ''/v1/models''\<rparr>) = None
   \<and> preHandler sample_len_le default_options 100 ''2025-01-01T00:00:00.000Z''
        (sample_request\<lparr>pathname := Some ''/v1/models''\<rparr>)
      = (Inr (), sample_request\<lparr>pathname := Some ''/v1/models''\<rparr>)
   \<and> onSend sample_parse sample_toStr 150 (sample_request\<lparr>pathname := Some ''/v1/models''\<rparr>)
        sample_world (PValue (JObj [(''data'', JArr [])]))
      = (Inr (PValue (JObj [(''data'', JArr [])])),
         sample_request\<lparr>pathname := Some ''/v1/models''\<rparr>, sample_world)
   \<and> onError 150 (sample_request\<lparr>pathname := Some ''/v1/models''\<rparr>) sample_world
        (JObj [(''message'', JStr ''boom'')])
      = (Inr (), sample_request\<lparr>pathname := Some ''/v1/models''\<rparr>, sample_world)"
proof -
  let ?r = "sample_request\<lparr>pathname := Some ''/v1/models''\<rparr>"
  have h1: "\<not> path_matches ?r"
    by (simp add: path_matches_def sample_request_def endsWith_def)
  have h2: "logEntry ?r = None"
    by (simp add: sample_request_def)
  show ?thesis
    using h1 h2 other_paths_untouched [OF h1 h2] by simp
qed


section \<open>The collector, line by line\<close>

lemma read_loop_lines:
  "read_loop parse toStr st cs = foldl (process_line parse toStr) st (stream_lines cs)"
  by (induction cs arbitrary: st) (simp_all add: read_loop_def process_chunk_def stream_lines_def)

lemma process_line_invalid:
  "startsWith bad ''data: '' \<Longrightarrow> parse (drop 6 bad) = None \<Longrightarrow>
   process_line parse toStr st bad = st"
  by (simp add: process_line_def)

lemma onSend_stream_returns:
  "fst (onSend parse toStr now req w (PStream s))
     = Inr (PStream (if logEntry req = None then s else caller_branch (callerTaken w) s))"
  by (simp add: onSend_def tee_def Let_def split: option.splits prod.splits)

lemma onSend_stream_done_returns:
  "fst (onSend parse toStr now req w (PStream (RStream cs Done)))
     = Inr (PStream (RStream cs Done))"
  by (simp add: onSend_stream_returns caller_branch_def)

text \<open>
  C4. Take a stream in which one of the lines the collector meets is a data frame whose
  body \<open>JSON.parse\<close> rejects. That line leaves the collector's state as it was; the loop
  goes on, and the task ends exactly as it does on a stream with the same lines before and
  after and the bad line taken out: the same entry, the same record written or not, the
  same server log. The hook itself returns the caller's branch of the stream (the stream
  itself when the request has no log entry), so nothing is thrown into the forwarding path.
\<close>

theorem invalid_frame_skipped:
  assumes "stream_lines cs = ls1 @ [bad] @ ls2"
      and "startsWith bad ''data: ''" and "parse (drop 6 bad) = None"
      and "stream_lines cs' = ls1 @ ls2"
  shows "process_line parse toStr st bad = st
       \<and> read_loop parse toStr st cs = read_loop parse toStr st cs'
       \<and> collect parse toStr (RStream cs en) e w = collect parse toStr (RStream cs' en) e w
       \<and> fst (onSend parse toStr now req w (PStream (RStream cs en)))
           = Inr (PStream (if logEntry req = None then RStream cs en
                           else caller_branch (callerTaken w) (RStream cs en)))"
proof -
  have skip: "process_line parse toStr st bad = st" for st
    using assms(2,3) by (rule process_line_invalid)
  have same: "read_loop parse toStr st cs = read_loop parse toStr st cs'" for st
    by (simp add: read_loop_lines assms(1,4) skip)
  show ?thesis
    using skip same by (simp add: collect_def onSend_stream_returns)
qed

theorem invalid_frame_skipped_witness:
  "stream_lines [frame body_start1 @ ''data: {oops'' @ [CHR 0x0A] @ frame body_delta1]
     = [''data: '' @ body_start1] @ [''data: {oops''] @ [''data: '' @ body_delta1, []]
   \<and> startsWith ''data: {oops'' ''data: ''
   \<and> sample_parse (drop 6 ''data: {oops'') = None
   \<and> stream_lines [frame body_start1 @ frame body_delta1]
     = [''data: '' @ body_start1] @ [''data: '' @ body_delta1, []]
   \<and> process_line sample_parse sample_toStr (init_collector sample_entry) ''data: {oops''
     = init_collector sample_entry
   \<and> collect sample_parse sample_toStr
        (RStream [frame body_start1 @ ''data: {oops'' @ [CHR 0x0A] @ frame body_delta1] Done)
        sample_entry sample_world
     = collect sample_parse sample_toStr
        (RStream [frame body_start1 @ frame body_delta1] Done) sample_entry sample_world
   \<and> res_fullText (response (fst (collect sample_parse sample_toStr
        (RStream [frame body_start1 @ ''data: {oops'' @ [CHR 0x0A] @ frame body_delta1] Done)
        sample_entry sample_world))) = JStr ''Hi''"
proof -
  let ?cs = "[frame body_start1 @ ''data: {oops'' @ [CHR 0x0A] @ frame body_delta1]"
  let ?cs' = "[frame body_start1 @ frame body_delta1]"
  have h1: "stream_lines ?cs
      = [''data: '' @ body_start1] @ [''data: {oops''] @ [''data: '' @ body_delta1, []]"
    by code_simp
  have h2: "startsWith ''data: {oops'' ''data: ''"
    by code_simp
  have h3: "sample_parse (drop 6 ''data: {oops'') = None"
    by code_simp
  have h4: "stream_lines ?cs' = [''data: '' @ body_start1] @ [''data: '' @ body_delta1, []]"
    by code_simp
  have got: "res_fullText (response (fst (collect sample_parse sample_toStr
      (RStream ?cs' Done) sample_entry sample_world))) = JStr ''Hi''"
    by code_simp
  have "process_line sample_parse sample_toStr (init_collector sample_entry) ''data: {oops''
        = init_collector sample_entry
      \<and> collect sample_parse sample_toStr (RStream ?cs Done) sample_entry sample_world
        = collect sample_parse sample_toStr (RStream ?cs' Done) sample_entry sample_world"
    using invalid_frame_skipped [where cs = ?cs and cs' = ?cs' and bad = "''data: {oops''"
        and ?ls1.0 = "[''data: '' @ body_start1]" and ?ls2.0 = "[''data: '' @ body_delta1, []]"
        and parse = sample_parse and toStr = sample_toStr
        and st = "init_collector sample_entry" and en = Done and e = sample_entry
        and w = sample_world, OF h1 h2 h3 h4]
    by blast
  then show ?thesis
    using h1 h2 h3 h4 got by simp
qed

section \<open>Which message_start counts\<close>

lemma message_delta_ids:
  "messageId (message_delta d st) = messageId st \<and> model (message_delta d st) = model st"
  by (simp add: message_delta_def Let_def)

lemma process_data_start:
  assumes "field d ''type'' = JStr ''message_start''"
  shows "messageId (process_data toStr d st) = field (field d ''message'') ''id''
       \<and> model (process_data toStr d st) = field (field d ''message'') ''model''"
  using assms field_JStr_not_nullish [OF assms]
  by (simp add: process_data_def Let_def message_delta_ids)

lemma process_data_other:
  assumes "field d ''type'' \<noteq> JStr ''message_start''"
  shows "messageId (process_data toStr d st) = messageId st
       \<and> model (process_data toStr d st) = model st"
  using assms
  by (simp add: process_data_def Let_def message_delta_ids split: json.splits)

lemma process_line_other:
  "\<not> is_message_start parse l \<Longrightarrow>
   messageId (process_line parse toStr st l) = messageId st
   \<and> model (process_line parse toStr st l) = model st"
  by (auto simp add: process_line_def is_message_start_def process_data_other
      split: option.splits)

lemma foldl_other:
  "\<forall>l \<in> set ls. \<not> is_message_start parse l \<Longrightarrow>
   messageId (foldl (process_line parse toStr) st ls) = messageId st
   \<and> model (foldl (process_line parse toStr) st ls) = model st"
  by (induction ls arbitrary: st) (simp_all add: process_line_other)

lemma finalize_ids:
  "res_id (response (finalize st)) = messageId st
   \<and> res_model (response (finalize st)) = model st"
  by (simp add: finalize_def Let_def)

text \<open>
  C6, as stated, fails: the branch for \<open>message_start\<close> assigns \<open>messageId\<close> and \<open>model\<close>
  without looking at what they hold. On a stream of two \<open>message_start\<close> frames, the first
  with id \<open>x1\<close> and model \<open>m1\<close>, the second with \<open>x2\<close> and \<open>m2\<close>, the written summary has
  \<open>x2\<close> and \<open>m2\<close>, not those of the first.
\<close>

theorem first_message_start_overwritten:
  "res_id (response (fst (collect sample_parse sample_toStr
      (RStream [frame body_start1, frame body_start2] Done) sample_entry sample_world)))
     = JStr ''x2''
   \<and> res_model (response (fst (collect sample_parse sample_toStr
      (RStream [frame body_start1, frame body_start2] Done) sample_entry sample_world)))
     = JStr ''m2''
   \<and> res_id (response (fst (collect sample_parse sample_toStr
      (RStream [frame body_start1, frame body_start2] Done) sample_entry sample_world)))
     \<noteq> JStr ''x1''
   \<and> res_model (response (fst (collect sample_parse sample_toStr
      (RStream [frame body_start1, frame body_start2] Done) sample_entry sample_world)))
     \<noteq> JStr ''m1''"
  by code_simp

text \<open>
  C6, amended. Every \<open>message_start\<close> event overwrites the id and the model: if the line
  \<open>l\<close> is a \<open>message_start\<close> frame with parsed body \<open>d\<close> and no line after it is one, the
  summary's id and model at the end are \<open>d.message?.id\<close> and \<open>d.message?.model\<close>, whatever
  came before. After two such events it is the second that counts.
\<close>

theorem last_message_start_wins:
  assumes "stream_lines cs = ls1 @ [l] @ ls2"
      and "startsWith l ''data: ''" and "parse (drop 6 l) = Some d"
      and "field d ''type'' = JStr ''message_start''"
      and "\<forall>l' \<in> set ls2. \<not> is_message_start parse l'"
  shows "res_id (response (finalize (read_loop parse toStr st cs)))
           = field (field d ''message'') ''id''
       \<and> res_model (response (finalize (read_loop parse toStr st cs)))
           = field (field d ''message'') ''model''"
proof -
  let ?before = "foldl (process_line parse toStr) st ls1"
  let ?at = "process_line parse toStr ?before l"
  have "?at = process_data toStr d ?before"
    using assms(2,3) by (simp add: process_line_def)
  then have ids: "messageId ?at = field (field d ''message'') ''id''
        \<and> model ?at = field (field d ''message'') ''model''"
    using process_data_start [OF assms(4)] by simp
  have "read_loop parse toStr st cs = foldl (process_line parse toStr) ?at ls2"
    by (simp add: read_loop_lines assms(1))
  then show ?thesis
    using foldl_other [OF assms(5), of toStr ?at] ids by (simp add: finalize_ids)
qed

theorem last_message_start_wins_witness:
  "stream_lines [frame body_start1, frame body_start2 @ frame body_delta1]
     = [''data: '' @ body_start1, []] @ [''data: '' @ body_start2]
       @ [''data: '' @ body_delta1, []]
   \<and> startsWith (''data: '' @ body_start2) ''data: ''
   \<and> sample_parse (drop 6 (''data: '' @ body_start2))
     = Some (JObj [(''type'', JStr ''message_start''),
                   (''message'', JObj [(''id'', JStr ''x2''), (''model'', JStr ''m2'')])])
   \<and> field (JObj [(''type'', JStr ''message_start''),
                   (''message'', JObj [(''id'', JStr ''x2''), (''model'', JStr ''m2'')])]) ''type''
     = JStr ''message_start''
   \<and> list_all (\<lambda>l'. \<not> is_message_start sample_parse l') [''data: '' @ body_delta1, []]
   \<and> res_id (response (finalize (read_loop sample_parse sample_toStr
         (init_collector sample_entry)
         [frame body_start1, frame body_start2 @ frame body_delta1]))) = JStr ''x2''
   \<and> res_model (response (finalize (read_loop sample_parse sample_toStr
         (init_collector sample_entry)
         [frame body_start1, frame body_start2 @ frame body_delta1]))) = JStr ''m2''"
proof -
  let ?cs = "[frame body_start1, frame body_start2 @ frame body_delta1]"
  let ?d = "JObj [(''type'', JStr ''message_start''),
                  (''message'', JObj [(''id'', JStr ''x2''), (''model'', JStr ''m2'')])]"
  have h1: "stream_lines ?cs
      = [''data: '' @ body_start1, []] @ [''data: '' @ body_start2]
        @ [''data: '' @ body_delta1, []]"
    by code_simp
  have h2: "startsWith (''data: '' @ body_start2) ''data: ''"
    by code_simp
  have h3: "sample_parse (drop 6 (''data: '' @ body_start2)) = Some ?d"
    by code_simp
  have h4: "field ?d ''type'' = JStr ''message_start''"
    by simp
  have h5': "list_all (\<lambda>l'. \<not> is_message_start sample_parse l') [''data: '' @ body_delta1, []]"
    by code_simp
  then have h5: "\<forall>l' \<in> set [''data: '' @ body_delta1, []]. \<not> is_message_start sample_parse l'"
    by (simp only: list_all_iff)
  have "res_id (response (finalize (read_loop sample_parse sample_toStr
          (init_collector sample_entry) ?cs))) = field (field ?d ''message'') ''id''
      \<and> res_model (response (finalize (read_loop sample_parse sample_toStr
          (init_collector sample_entry) ?cs))) = field (field ?d ''message'') ''model''"
    by (rule last_message_start_wins [where cs = ?cs and l = "''data: '' @ body_start2"
        and ?ls1.0 = "[''data: '' @ body_start1, []]"
        and ?ls2.0 = "[''data: '' @ body_delta1, []]"
        and parse = sample_parse and d = ?d, OF h1 h2 h3 h4 h5])
  then show ?thesis
    using h1 h2 h3 h4 h5' by simp
qed


section \<open>The accumulated text\<close>

lemma fullText_message_delta: "fullText (message_delta d st) = fullText st"
  by (simp add: message_delta_def Let_def)

lemma fullText_process_data:
  "fullText (process_data toStr d st)
     = fullText st
       @ (if field d ''type'' = JStr ''content_block_delta''
             \<and> truthy (field (field d ''delta'') ''text'')
          then to_text toStr (field (field d ''delta'') ''text'') else [])"
  by (cases d) (simp_all add: process_data_def Let_def fullText_message_delta split: json.splits)

lemma fullText_process_line:
  "fullText (process_line parse toStr st l) = fullText st @ delta_text parse toStr l"
  by (simp add: process_line_def delta_text_def fullText_process_data split: option.splits)

lemma fullText_foldl:
  "fullText (foldl (process_line parse toStr) st ls)
     = fullText st @ concat (map (delta_text parse toStr) ls)"
  by (induction ls arbitrary: st) (simp_all add: fullText_process_line)

lemma fullText_read_loop:
  "res_fullText (response (finalize (read_loop parse toStr (init_collector e) cs)))
     = JStr (concat (map (delta_text parse toStr) (stream_lines cs)))"
  by (simp add: finalize_def Let_def read_loop_lines fullText_foldl init_collector_def)

lemma split_nl_not_Nil: "split_nl s \<noteq> []"
  by (induction s) (simp_all split: list.splits)

lemma split_nl_append_lf: "split_nl (a @ CHR 0x0A # b) = split_nl a @ split_nl b"
proof (induction a)
  case Nil
  show ?case by simp
next
  case (Cons c a)
  obtain l ls where "split_nl a = l # ls"
    using split_nl_not_Nil [of a] by (cases "split_nl a") auto
  with Cons show ?case by simp
qed

lemma delta_text_empty_line: "delta_text parse toStr [] = []"
  by (simp add: delta_text_def startsWith_def)

lemma aligned_lines:
  "line_aligned cs \<Longrightarrow>
   concat (map (delta_text parse toStr) (stream_lines cs))
     = concat (map (delta_text parse toStr) (split_nl (concat cs)))"
proof (induction cs)
  case Nil
  show ?case by (simp add: stream_lines_def delta_text_empty_line)
next
  case (Cons c cs)
  from Cons.prems have c: "c \<noteq> []" "last c = CHR 0x0A" and rest: "line_aligned cs"
    by (simp_all add: line_aligned_def)
  from c have c_eq: "c = butlast c @ [CHR 0x0A]"
    by (metis append_butlast_last_id)
  have "split_nl c = split_nl (butlast c) @ [[]]"
    using split_nl_append_lf [of "butlast c" "[]"] c_eq by simp
  moreover have "split_nl (concat (c # cs)) = split_nl (butlast c) @ split_nl (concat cs)"
    using split_nl_append_lf [of "butlast c" "concat cs"] c_eq
    by (metis append_Cons append_Nil append_assoc concat.simps(2))
  ultimately show ?case
    using Cons.IH [OF rest] by (simp add: stream_lines_def delta_text_empty_line)
qed

text \<open>
  What does hold of the accumulated text: it is the concatenation, in order, of the text
  of the delta frames among the lines the collector meets; and when every chunk ends at a
  line end, those are the frames of the stream's bytes, whatever else the chunking is.
\<close>

lemma fullText_when_line_aligned:
  assumes "line_aligned cs"
  shows "res_fullText (response (finalize (read_loop parse toStr (init_collector e) cs)))
         = JStr (concat (map (delta_text parse toStr) (split_nl (concat cs))))"
  using aligned_lines [OF assms] by (simp add: fullText_read_loop)

text \<open>
  C2 fails on the code. The loop splits every chunk into lines on its own and keeps
  nothing from one chunk to the next, so a frame cut by a chunk boundary is lost: its head
  is a data line that does not parse, its tail a line without the prefix. The frame
  \<open>data: {"type":"content_block_delta","delta":{"text":"Hi"}}\<close> delivered in two chunks,
  cut inside the key \<open>text\<close>, leaves \<open>fullText\<close> empty; the same bytes in one chunk
  give \<open>Hi\<close>.
\<close>

theorem split_frame_loses_text:
  "''data: '' @ body_cut @ body_rest @ [CHR 0x0A] = frame body_delta1
   \<and> res_fullText (response (fst (collect sample_parse sample_toStr
        (RStream [''data: '' @ body_cut, body_rest @ [CHR 0x0A]] Done)
        sample_entry sample_world))) = JStr []
   \<and> res_fullText (response (fst (collect sample_parse sample_toStr
        (RStream [''data: '' @ body_cut @ body_rest @ [CHR 0x0A]] Done)
        sample_entry sample_world))) = JStr ''Hi''"
  by code_simp

section \<open>What the outbound hook returns\<close>

text \<open>
  C3 fails on the code in its second half. For a stream the hook returns the caller's
  branch of \<open>tee()\<close>, whatever the logging side does (\<open>onSend_stream_returns\<close>). On
  the direct path there is no \<open>try\<close> around the branch: with the payload \<open>null\<close>, for
  which \<open>typeof\<close> answers \<open>'object'\<close>, reading \<open>payload.error\<close> throws; with an object
  payload and a log file that cannot be appended to, the awaited \<open>appendFile\<close> rejects.
  Either way the hook throws instead of returning the payload, where the streaming path
  catches the same append failure and still returns the stream.
\<close>

theorem direct_path_throws:
  "logEntry captured_request = Some sample_entry
   \<and> fst (onSend sample_parse sample_toStr 150 captured_request sample_world (PValue JNull))
     = Inl TypeError
   \<and> fst (onSend sample_parse sample_toStr 150 captured_request
          (sample_world\<lparr>writable := False\<rparr>) (PValue success_payload))
     = Inl IOError
   \<and> fst (onSend sample_parse sample_toStr 150 captured_request
          (sample_world\<lparr>writable := False\<rparr>) (PStream (RStream [frame body_delta1] Done)))
     = Inr (PStream (RStream [frame body_delta1] Done))"
  by code_simp


section \<open>The direct path\<close>


lemma direct_fill_error:
  "\<not> nullish p \<Longrightarrow> truthy (field p ''error'') \<Longrightarrow>
   direct_fill toStr p e =
     (None, e\<lparr>error := JObj [(''type'', field (field p ''error'') ''type''),
                              (''message'', field (field p ''error'') ''message'')]\<rparr>)"
  by (simp add: direct_fill_def)

lemma direct_fill_fields:
  assumes "\<not> nullish p" and "\<not> truthy (field p ''error'')"
  shows "error (snd (direct_fill toStr p e)) = error e
       \<and> res_id (response (snd (direct_fill toStr p e))) = field p ''id''
       \<and> res_model (response (snd (direct_fill toStr p e))) = field p ''model''
       \<and> res_role (response (snd (direct_fill toStr p e))) = field p ''role''
       \<and> res_content (response (snd (direct_fill toStr p e))) = field p ''content''
       \<and> res_stop_reason (response (snd (direct_fill toStr p e))) = field p ''stop_reason''
       \<and> res_stop_sequence (response (snd (direct_fill toStr p e)))
           = field p ''stop_sequence''
       \<and> res_usage (response (snd (direct_fill toStr p e))) = field p ''usage''"
proof (cases "field p ''content''")
  case (JArr items)
  then show ?thesis
    using assms by (cases "text_content toStr items") (simp_all add: direct_fill_def Let_def)
qed (use assms in \<open>simp_all add: direct_fill_def Let_def\<close>)

lemma direct_fill_fullText:
  assumes "\<not> nullish p" and "\<not> truthy (field p ''error'')"
      and "field p ''content'' = JArr items" and "\<not> list_ex nullish items"
  shows "direct_fill toStr p e
         = (None,
            e\<lparr>response :=
                (if joined_text toStr items \<noteq> []
                 then (response e)\<lparr>res_id := field p ''id'', res_model := field p ''model'',
                        res_role := field p ''role'', res_content := field p ''content'',
                        res_stop_reason := field p ''stop_reason'',
                        res_stop_sequence := field p ''stop_sequence'',
                        res_usage := field p ''usage'',
                        res_fullText := JStr (joined_text toStr items)\<rparr>
                 else (response e)\<lparr>res_id := field p ''id'', res_model := field p ''model'',
                        res_role := field p ''role'', res_content := field p ''content'',
                        res_stop_reason := field p ''stop_reason'',
                        res_stop_sequence := field p ''stop_sequence'',
                        res_usage := field p ''usage''\<rparr>)\<rparr>)"
  using assms by (simp add: direct_fill_def text_content_def joined_text_def Let_def)

lemma onSend_direct_entry:
  assumes "logEntry req = Some e0" and "typeof_object p"
  shows "logEntry (fst (snd (onSend parse toStr now req w (PValue p))))
       = Some (snd (direct_fill toStr p
                 (e0\<lparr>duration_ms := map_option (\<lambda>t. now - t) (requestStartTime req)\<rparr>)))"
  using assms
  by (simp add: onSend_def Let_def split: prod.splits option.splits sum.splits)

lemma onSend_direct_written:
  assumes "logEntry req = Some e0" and "typeof_object p" and "writable w"
      and "direct_fill toStr p
             (e0\<lparr>duration_ms := map_option (\<lambda>t. now - t) (requestStartTime req)\<rparr>)
           = (None, e')"
  shows "onSend parse toStr now req w (PValue p)
         = (Inr (PValue p), req\<lparr>logEntry := Some e'\<rparr>, w\<lparr>logFile := logFile w @ [e']\<rparr>)"
  using assms by (simp add: onSend_def appendFile_def)

lemma onSend_direct_no_parse:
  "onSend parse toStr now req w (PValue p) = onSend parse' toStr now req w (PValue p)"
  by (simp add: onSend_def Let_def split: option.splits)

text \<open>
  C7. On the direct path, for a payload that is an object: when \<open>payload.error\<close> is there
  (the test is \<open>if (payload.error)\<close>), the entry gets \<open>error = {type, message}\<close> read off the
  payload's error and nothing else changes but the duration, so the response summary stays
  as the request hook left it; otherwise the summary's id, model, role, content,
  stop_reason, stop_sequence and usage are the payload's and \<open>error\<close> stays unset. The
  branch never consults the event parser: the outcome is the same for every \<open>JSON.parse\<close>.
\<close>

theorem direct_error_projection:
  assumes "logEntry req = Some e0" and "typeof_object p" and "\<not> nullish p"
  shows "(truthy (field p ''error'') \<longrightarrow>
            logEntry (fst (snd (onSend parse toStr now req w (PValue p))))
              = Some (e0\<lparr>duration_ms := map_option (\<lambda>t. now - t) (requestStartTime req),
                         error := JObj [(''type'', field (field p ''error'') ''type''),
                                        (''message'', field (field p ''error'') ''message'')]\<rparr>))
       \<and> (\<not> truthy (field p ''error'') \<longrightarrow>
            (\<exists>e'. logEntry (fst (snd (onSend parse toStr now req w (PValue p)))) = Some e'
               \<and> error e' = error e0
               \<and> res_id (response e') = field p ''id''
               \<and> res_model (response e') = field p ''model''
               \<and> res_role (response e') = field p ''role''
               \<and> res_content (response e') = field p ''content''
               \<and> res_stop_reason (response e') = field p ''stop_reason''
               \<and> res_stop_sequence (response e') = field p ''stop_sequence''
               \<and> res_usage (response e') = field p ''usage''))
       \<and> onSend parse toStr now req w (PValue p) = onSend parse' toStr now req w (PValue p)"
proof (intro conjI impI)
  assume t: "truthy (field p ''error'')"
  show "logEntry (fst (snd (onSend parse toStr now req w (PValue p))))
      = Some (e0\<lparr>duration_ms := map_option (\<lambda>t. now - t) (requestStartTime req),
                 error := JObj [(''type'', field (field p ''error'') ''type''),
                                (''message'', field (field p ''error'') ''message'')]\<rparr>)"
    unfolding onSend_direct_entry [OF assms(1,2)]
    by (simp add: direct_fill_error [OF assms(3) t])
next
  assume f: "\<not> truthy (field p ''error'')"
  let ?e = "e0\<lparr>duration_ms := map_option (\<lambda>t. now - t) (requestStartTime req)\<rparr>"
  show "\<exists>e'. logEntry (fst (snd (onSend parse toStr now req w (PValue p)))) = Some e'
               \<and> error e' = error e0
               \<and> res_id (response e') = field p ''id''
               \<and> res_model (response e') = field p ''model''
               \<and> res_role (response e') = field p ''role''
               \<and> res_content (response e') = field p ''content''
               \<and> res_stop_reason (response e') = field p ''stop_reason''
               \<and> res_stop_sequence (response e') = field p ''stop_sequence''
               \<and> res_usage (response e') = field p ''usage''"
    unfolding onSend_direct_entry [OF assms(1,2)]
    using direct_fill_fields [OF assms(3) f, of toStr ?e] by simp
next
  show "onSend parse toStr now req w (PValue p) = onSend parse' toStr now req w (PValue p)"
    by (rule onSend_direct_no_parse)
qed

theorem direct_error_projection_witness:
  "logEntry captured_request = Some sample_entry
   \<and> response sample_entry = empty_response
   \<and> typeof_object error_payload \<and> \<not> nullish error_payload
   \<and> truthy (field error_payload ''error'')
   \<and> logEntry (fst (snd (onSend sample_parse sample_toStr 150 captured_request sample_world
        (PValue error_payload))))
     = Some (sample_entry\<lparr>duration_ms := Some 50,
               error := JObj [(''type'', JStr ''overloaded_error''),
                              (''message'', JStr ''Overloaded'')]\<rparr>)
   \<and> typeof_object success_payload \<and> \<not> nullish success_payload
   \<and> \<not> truthy (field success_payload ''error'')
   \<and> (\<exists>e'. logEntry (fst (snd (onSend sample_parse sample_toStr 150 captured_request
          sample_world (PValue success_payload)))) = Some e'
       \<and> error e' = JUndef
       \<and> res_id (response e') = JStr ''msg_1''
       \<and> res_model (response e') = JStr ''m1''
       \<and> res_role (response e') = JStr ''assistant''
       \<and> res_content (response e') = JArr sample_blocks
       \<and> res_stop_reason (response e') = JStr ''end_turn''
       \<and> res_stop_sequence (response e') = JUndef
       \<and> res_usage (response e')
           = JObj [(''input_tokens'', JNum 5), (''output_tokens'', JNum 2)])"
proof -
  have h1: "logEntry captured_request = Some sample_entry"
    by (simp add: captured_request_eq)
  have start: "requestStartTime captured_request = Some 100"
    by (simp add: captured_request_eq)
  have fresh: "response sample_entry = empty_response" "error sample_entry = JUndef"
    by (simp_all add: sample_entry_def)
  have p2: "typeof_object error_payload" and p3: "\<not> nullish error_payload"
    and p4: "truthy (field error_payload ''error'')"
    by (simp_all add: error_payload_def)
  have q2: "typeof_object success_payload" and q3: "\<not> nullish success_payload"
    and q4: "\<not> truthy (field success_payload ''error'')"
    by (simp_all add: success_payload_def)
  have first: "logEntry (fst (snd (onSend sample_parse sample_toStr 150 captured_request
          sample_world (PValue error_payload))))
      = Some (sample_entry\<lparr>duration_ms := Some 50,
                error := JObj [(''type'', JStr ''overloaded_error''),
                               (''message'', JStr ''Overloaded'')]\<rparr>)"
    using direct_error_projection [OF h1 p2 p3, of sample_parse sample_toStr 150 sample_world
        sample_parse] p4 start
    by (simp add: error_payload_def)
  have second: "\<exists>e'. logEntry (fst (snd (onSend sample_parse sample_toStr 150
          captured_request sample_world (PValue success_payload)))) = Some e'
       \<and> error e' = JUndef
       \<and> res_id (response e') = JStr ''msg_1''
       \<and> res_model (response e') = JStr ''m1''
       \<and> res_role (response e') = JStr ''assistant''
       \<and> res_content (response e') = JArr sample_blocks
       \<and> res_stop_reason (response e') = JStr ''end_turn''
       \<and> res_stop_sequence (response e') = JUndef
       \<and> res_usage (response e')
           = JObj [(''input_tokens'', JNum 5), (''output_tokens'', JNum 2)]"
    using direct_error_projection [OF h1 q2 q3, of sample_parse sample_toStr 150 sample_world
        sample_parse] q4 fresh(2)
    by (simp add: success_payload_def)
  show ?thesis
    using h1 fresh(1) p2 p3 p4 q2 q3 q4 first second by blast
qed

text \<open>
  C9. On the direct path, for an object payload without error whose \<open>content\<close> is an array
  of blocks (none of them \<open>null\<close>): when the \<open>text\<close> fields of the blocks tagged \<open>text\<close>,
  joined with a line feed, give a non-empty string, that string is the entry's
  \<open>fullText\<close>; when they give the empty string, \<open>fullText\<close> is not assigned and stays as
  it was, which is unset for the entry the request hook made. With a writable log this
  entry is the one record appended.
\<close>

theorem direct_fullText_joined:
  assumes "logEntry req = Some e0" and "typeof_object p" and "\<not> nullish p"
      and "\<not> truthy (field p ''error'')"
      and "field p ''content'' = JArr items" and "\<not> list_ex nullish items"
  shows "\<exists>e'. logEntry (fst (snd (onSend parse toStr now req w (PValue p)))) = Some e'
           \<and> res_fullText (response e')
               = (if joined_text toStr items = [] then res_fullText (response e0)
                  else JStr (joined_text toStr items))
           \<and> (writable w \<longrightarrow>
                 logFile (snd (snd (onSend parse toStr now req w (PValue p))))
                   = logFile w @ [e'])"
proof -
  let ?e = "e0\<lparr>duration_ms := map_option (\<lambda>t. now - t) (requestStartTime req)\<rparr>"
  obtain e' where fill: "direct_fill toStr p ?e = (None, e')"
      and ft: "res_fullText (response e')
               = (if joined_text toStr items = [] then res_fullText (response e0)
                  else JStr (joined_text toStr items))"
    using direct_fill_fullText [OF assms(3-6), of toStr ?e] by simp
  have "logEntry (fst (snd (onSend parse toStr now req w (PValue p)))) = Some e'"
    using onSend_direct_entry [OF assms(1,2), of parse toStr now w] fill by simp
  moreover have "writable w \<longrightarrow>
      logFile (snd (snd (onSend parse toStr now req w (PValue p)))) = logFile w @ [e']"
    using onSend_direct_written [OF assms(1,2) _ fill, of w parse] by simp
  ultimately show ?thesis
    using ft by blast
qed

theorem direct_fullText_joined_witness:
  "logEntry captured_request = Some sample_entry
   \<and> res_fullText (response sample_entry) = JUndef
   \<and> writable sample_world \<and> logFile sample_world = []
   \<and> typeof_object success_payload \<and> \<not> nullish success_payload
   \<and> \<not> truthy (field success_payload ''error'')
   \<and> field success_payload ''content'' = JArr sample_blocks
   \<and> \<not> list_ex nullish sample_blocks
   \<and> joined_text sample_toStr sample_blocks = ''a'' @ [CHR 0x0A] @ ''b''
   \<and> (\<exists>e'. logEntry (fst (snd (onSend sample_parse sample_toStr 150 captured_request
               sample_world (PValue success_payload)))) = Some e'
          \<and> res_fullText (response e') = JStr (''a'' @ [CHR 0x0A] @ ''b'')
          \<and> logFile (snd (snd (onSend sample_parse sample_toStr 150 captured_request
               sample_world (PValue success_payload)))) = [e'])
   \<and> typeof_object blank_payload \<and> \<not> nullish blank_payload
   \<and> \<not> truthy (field blank_payload ''error'')
   \<and> field blank_payload ''content''
     = JArr [JObj [(''type'', JStr ''text''), (''text'', JStr [])]]
   \<and> \<not> list_ex nullish [JObj [(''type'', JStr ''text''), (''text'', JStr [])]]
   \<and> joined_text sample_toStr [JObj [(''type'', JStr ''text''), (''text'', JStr [])]] = []
   \<and> (\<exists>e'. logEntry (fst (snd (onSend sample_parse sample_toStr 150 captured_request
               sample_world (PValue blank_payload)))) = Some e'
          \<and> res_fullText (response e') = JUndef)"
proof -
  let ?blank = "[JObj [(''type'', JStr ''text''), (''text'', JStr [])]]"
  have h1: "logEntry captured_request = Some sample_entry"
    by (simp add: captured_request_eq)
  have unset: "res_fullText (response sample_entry) = JUndef"
    by (simp add: sample_entry_def empty_response_def)
  have w: "writable sample_world" "logFile sample_world = []"
    by (simp_all add: sample_world_def)
  have p2: "typeof_object success_payload" and p3: "\<not> nullish success_payload"
    and p4: "\<not> truthy (field success_payload ''error'')"
    and p5: "field success_payload ''content'' = JArr sample_blocks"
    by (simp_all add: success_payload_def)
  have p6: "\<not> list_ex nullish sample_blocks"
    by (simp add: sample_blocks_def)
  have j1: "joined_text sample_toStr sample_blocks = ''a'' @ [CHR 0x0A] @ ''b''"
    by (simp add: joined_text_def sample_blocks_def join_text_def)
  have q2: "typeof_object blank_payload" and q3: "\<not> nullish blank_payload"
    and q4: "\<not> truthy (field blank_payload ''error'')"
    and q5: "field blank_payload ''content'' = JArr ?blank"
    by (simp_all add: blank_payload_def)
  have q6: "\<not> list_ex nullish ?blank"
    by simp
  have j2: "joined_text sample_toStr ?blank = []"
    by (simp add: joined_text_def join_text_def)
  have a: "\<exists>e'. logEntry (fst (snd (onSend sample_parse sample_toStr 150 captured_request
               sample_world (PValue success_payload)))) = Some e'
          \<and> res_fullText (response e') = JStr (''a'' @ [CHR 0x0A] @ ''b'')
          \<and> logFile (snd (snd (onSend sample_parse sample_toStr 150 captured_request
               sample_world (PValue success_payload)))) = [e']"
    using direct_fullText_joined [OF h1 p2 p3 p4 p5 p6, of sample_parse sample_toStr 150
        sample_world] j1 w
    by simp
  have b: "\<exists>e'. logEntry (fst (snd (onSend sample_parse sample_toStr 150 captured_request
               sample_world (PValue blank_payload)))) = Some e'
          \<and> res_fullText (response e') = JUndef"
    using direct_fullText_joined [OF h1 q2 q3 q4 q5 q6, of sample_parse sample_toStr 150
        sample_world] j2 unset
    by auto
  show ?thesis
    using h1 unset w p2 p3 p4 p5 p6 j1 a q2 q3 q4 q5 q6 j2 b by blast
qed


section \<open>How many records a request leaves\<close>















end
